theory Spec2Isabelle
  imports Main
begin

section \<open>Values and errors\<close>

text \<open>
  The values \<open>json.loads\<close> produces and \<open>json.dumps\<close> consumes. A Python \<open>str\<close> is an
  Isabelle string; the code looks at single characters only in request paths (which
  \<open>http.server\<close> decodes as Latin-1, one character per byte) and when it strips white space
  from the file text; a string stands for text that UTF-8 can encode. A float is kept
  as mantissa and exponent (\<open>m * 2 ^ e\<close>) or one of the three special values; the code
  only ever tests a float for truth.
  A dict is an association list read with \<open>map_of\<close>.
\<close>

datatype pyfloat = Float int int | Inf | NegInf | NaN

datatype pyval =
    PNone
  | PBool bool
  | PInt int
  | PFloat pyfloat
  | PStr string
  | PList "pyval list"
  | PDict "(string \<times> pyval) list"

text \<open>
  The exceptions that occur in \<open>httpserver.py\<close>. \<open>JSONDecodeError\<close> and
  \<open>UnicodeDecodeError\<close> are subclasses of \<open>ValueError\<close>; \<open>IOError\<close> is \<open>OSError\<close>.
\<close>

datatype py_error =
    IOError
  | ValueError
  | JSONDecodeError
  | UnicodeDecodeError
  | IndexError
  | AttributeError

fun is_ValueError :: "py_error \<Rightarrow> bool" where
  "is_ValueError ValueError = True"
| "is_ValueError JSONDecodeError = True"
| "is_ValueError UnicodeDecodeError = True"
| "is_ValueError _ = False"


text \<open>Python truth of a value, as \<open>not title\<close> tests it.\<close>

fun truthy :: "pyval \<Rightarrow> bool" where
  "truthy PNone = False"
| "truthy (PBool b) = b"
| "truthy (PInt i) = (i \<noteq> 0)"
| "truthy (PFloat (Float m e)) = (m \<noteq> 0)"
| "truthy (PFloat _) = True"
| "truthy (PStr s) = (s \<noteq> [])"
| "truthy (PList xs) = (xs \<noteq> [])"
| "truthy (PDict kvs) = (kvs \<noteq> [])"

text \<open>\<open>d.get(k, default)\<close> on a dict.\<close>

definition dict_get :: "(string \<times> pyval) list \<Rightarrow> string \<Rightarrow> pyval \<Rightarrow> pyval" where
  "dict_get d k dflt = (case map_of d k of None \<Rightarrow> dflt | Some v \<Rightarrow> v)"

section \<open>String operations of the Python library\<close>

text \<open>\<open>str.isspace\<close> on the characters below 256.\<close>

definition is_space :: "char \<Rightarrow> bool" where
  "is_space c =
     (let n = (of_char c :: nat)
      in (9 \<le> n \<and> n \<le> 13) \<or> (28 \<le> n \<and> n \<le> 32) \<or> n = 133 \<or> n = 160)"

definition strip_with :: "(char \<Rightarrow> bool) \<Rightarrow> string \<Rightarrow> string" where
  "strip_with p s = rev (dropWhile p (rev (dropWhile p s)))"

text \<open>\<open>s.strip()\<close> and \<open>s.strip('/')\<close>.\<close>

definition strip :: "string \<Rightarrow> string" where
  "strip s = strip_with is_space s"

definition strip_char :: "char \<Rightarrow> string \<Rightarrow> string" where
  "strip_char c s = strip_with (\<lambda>x. x = c) s"

text \<open>\<open>s.split(c)\<close>: always at least one part; empty parts are kept.\<close>

fun split :: "char \<Rightarrow> string \<Rightarrow> string list" where
  "split c [] = [[]]"
| "split c (x # xs) =
     (if x = c then [] # split c xs
      else (case split c xs of p # ps \<Rightarrow> (x # p) # ps | [] \<Rightarrow> [[x]]))"

definition startswith :: "string \<Rightarrow> string \<Rightarrow> bool" where
  "startswith s pre = (take (length pre) s = pre)"

definition endswith :: "string \<Rightarrow> string \<Rightarrow> bool" where
  "endswith s suf = (length suf \<le> length s \<and> drop (length s - length suf) s = suf)"

text \<open>
  \<open>int(s)\<close> on a string: white space around is dropped, then an optional sign, then
  decimal digits, where single underscores may stand between two digits. \<open>None\<close> is
  \<open>ValueError\<close>. The white space of \<open>int\<close> is narrower than that of \<open>strip\<close>: the
  separators \<open>0x1C\<close> to \<open>0x1F\<close> are not part of it. A string of more than 4300 digits
  is refused (the default \<open>sys.int_max_str_digits\<close> of CPython since 3.11; leading zeros
  count, underscores do not).
\<close>

definition is_int_space :: "char \<Rightarrow> bool" where
  "is_int_space c =
     (let n = (of_char c :: nat)
      in (9 \<le> n \<and> n \<le> 13) \<or> n = 32 \<or> n = 133 \<or> n = 160)"

definition is_digit :: "char \<Rightarrow> bool" where
  "is_digit c = (let n = (of_char c :: nat) in 48 \<le> n \<and> n \<le> 57)"

definition digit_val :: "char \<Rightarrow> nat" where
  "digit_val c = of_char c - 48"

fun digits :: "nat \<Rightarrow> string \<Rightarrow> nat option" where
  "digits acc [] = Some acc"
| "digits acc [c] = (if is_digit c then Some (10 * acc + digit_val c) else None)"
| "digits acc (c # d # ds) =
     (if is_digit c then digits (10 * acc + digit_val c) (d # ds)
      else if c = CHR ''_'' \<and> is_digit d then digits (10 * acc + digit_val d) ds
      else None)"

definition number :: "string \<Rightarrow> nat option" where
  "number s =
     (case s of
        [] \<Rightarrow> None
      | c # cs \<Rightarrow>
          if is_digit c \<and> length (filter is_digit s) \<le> 4300 then digits (digit_val c) cs
          else None)"

definition py_int :: "string \<Rightarrow> int option" where
  "py_int s =
     (case strip_with is_int_space s of
        [] \<Rightarrow> None
      | c # cs \<Rightarrow>
          if c = CHR ''-'' then map_option (\<lambda>n. - int n) (number cs)
          else if c = CHR ''+'' then map_option int (number cs)
          else map_option int (number (c # cs)))"

section \<open>TaskManager\<close>

text \<open>
  A task is the dict that \<open>create_task\<close> builds (lines 60-65): the keys \<open>id\<close>, \<open>title\<close>,
  \<open>priority\<close> and \<open>isDone\<close>. The handler passes whatever JSON values stand in the request,
  so title and priority are values, not strings.
\<close>

record task =
  task_id :: int
  title :: pyval
  priority :: pyval
  isDone :: bool

text \<open>
  The state of a \<open>TaskManager\<close>: \<open>self.tasks\<close>, and the collections that \<open>save_tasks\<close> has
  handed to \<open>json.dump\<close> for the backing file, oldest first. Whether a write reaches the
  disk is the file system's business: \<open>save_tasks\<close> swallows \<open>IOError\<close> (lines 39-41) and
  never reads the file back.
\<close>

record task_manager =
  tasks :: "task list"
  saved :: "task list list"

definition save_tasks :: "task_manager \<Rightarrow> task_manager" where
  "save_tasks tm = tm\<lparr>saved := saved tm @ [tasks tm]\<rparr>"

text \<open>Lines 43-47. \<open>max\<close> over the generator keeps a running maximum.\<close>

definition get_next_id :: "task_manager \<Rightarrow> int" where
  "get_next_id tm =
     (case tasks tm of
        [] \<Rightarrow> 1
      | t # ts \<Rightarrow> foldl max (task_id t) (map task_id ts) + 1)"

text \<open>Lines 49-68: the created task and the new state.\<close>

definition create_task :: "pyval \<Rightarrow> pyval \<Rightarrow> task_manager \<Rightarrow> task \<times> task_manager" where
  "create_task ttl prio tm =
     (let t = \<lparr>task_id = get_next_id tm, title = ttl, priority = prio, isDone = False\<rparr>
      in (t, save_tasks (tm\<lparr>tasks := tasks tm @ [t]\<rparr>)))"

definition get_all_tasks :: "task_manager \<Rightarrow> task list" where
  "get_all_tasks tm = tasks tm"

text \<open>Lines 84-87: the first task with the id, or \<open>None\<close>.\<close>

fun first_with_id :: "int \<Rightarrow> task list \<Rightarrow> task option" where
  "first_with_id i [] = None"
| "first_with_id i (t # ts) = (if task_id t = i then Some t else first_with_id i ts)"

definition get_task_by_id :: "task_manager \<Rightarrow> int \<Rightarrow> task option" where
  "get_task_by_id tm i = first_with_id i (tasks tm)"

text \<open>
  Line 101 assigns to the dict that the search returned, which is the list's own element:
  the first task with the id changes in place.
\<close>

fun set_done :: "int \<Rightarrow> task list \<Rightarrow> task list" where
  "set_done i [] = []"
| "set_done i (t # ts) =
     (if task_id t = i then t\<lparr>isDone := True\<rparr> # ts else t # set_done i ts)"

text \<open>Lines 89-104. A task dict has four keys, so \<open>if task\<close> asks whether one was found.\<close>

definition mark_as_done :: "task_manager \<Rightarrow> int \<Rightarrow> bool \<times> task_manager" where
  "mark_as_done tm i =
     (case get_task_by_id tm i of
        Some t \<Rightarrow> (True, save_tasks (tm\<lparr>tasks := set_done i (tasks tm)\<rparr>))
      | None \<Rightarrow> (False, tm))"

text \<open>Lines 106-121. \<open>list.remove\<close> takes out the first element equal to the task.\<close>

definition delete_task :: "task_manager \<Rightarrow> int \<Rightarrow> bool \<times> task_manager" where
  "delete_task tm i =
     (case get_task_by_id tm i of
        Some t \<Rightarrow> (True, save_tasks (tm\<lparr>tasks := remove1 t (tasks tm)\<rparr>))
      | None \<Rightarrow> (False, tm))"

text \<open>
  \<open>TaskManager.__init__\<close> and \<open>load_tasks\<close> (lines 19-32). The backing file is what the
  three library calls do with it: \<open>os.path.exists\<close>, \<open>open\<close> with \<open>f.read()\<close> (the text, or
  the exception raised), and \<open>json.loads\<close> on the stripped text (the value, or the exception
  raised). \<open>self.tasks\<close> is whatever \<open>json.loads\<close> returned, so the result is a value.
\<close>

record backing_file =
  file_exists :: bool
  file_read :: "py_error + string"
  file_loads :: "py_error + pyval"

definition load_tasks :: "backing_file \<Rightarrow> pyval \<Rightarrow> py_error + pyval" where
  "load_tasks f cur =
     (if file_exists f then
        (case (case file_read f of
                 Inl e \<Rightarrow> Inl e
               | Inr text \<Rightarrow>
                   (let content = strip text
                    in if content \<noteq> [] then file_loads f else Inr cur)) of
           Inl e \<Rightarrow> if e = JSONDecodeError \<or> e = IOError then Inr (PList []) else Inl e
         | Inr v \<Rightarrow> Inr v)
      else Inr cur)"

definition init :: "backing_file \<Rightarrow> py_error + pyval" where
  "init f = load_tasks f (PList [])"

text \<open>
  What \<open>json.dump\<close> writes for a task and for the collection, and the reading of a value
  as a collection of tasks: a list of dicts with an integer \<open>id\<close>, a \<open>title\<close>, a
  \<open>priority\<close> and a Boolean \<open>isDone\<close>.
\<close>

definition task_json :: "task \<Rightarrow> pyval" where
  "task_json t =
     PDict [(''id'', PInt (task_id t)), (''title'', title t),
            (''priority'', priority t), (''isDone'', PBool (isDone t))]"

definition tasks_json :: "task list \<Rightarrow> pyval" where
  "tasks_json ts = PList (map task_json ts)"

fun task_of_json :: "pyval \<Rightarrow> task option" where
  "task_of_json (PDict d) =
     (case map_of d ''id'' of
        Some (PInt i) \<Rightarrow>
          (case map_of d ''title'' of
             Some ttl \<Rightarrow>
               (case map_of d ''priority'' of
                  Some prio \<Rightarrow>
                    (case map_of d ''isDone'' of
                       Some (PBool b) \<Rightarrow>
                         Some \<lparr>task_id = i, title = ttl, priority = prio, isDone = b\<rparr>
                     | _ \<Rightarrow> None)
                | None \<Rightarrow> None)
           | None \<Rightarrow> None)
      | _ \<Rightarrow> None)"
| "task_of_json _ = None"

fun tasks_of_json :: "pyval \<Rightarrow> task list option" where
  "tasks_of_json (PList vs) = those (map task_of_json vs)"
| "tasks_of_json _ = None"

section \<open>TodoHandler\<close>

datatype HTTPStatus = OK | CREATED | BAD_REQUEST | NOT_FOUND | NOT_IMPLEMENTED

fun status_code :: "HTTPStatus \<Rightarrow> nat" where
  "status_code OK = 200"
| "status_code CREATED = 201"
| "status_code BAD_REQUEST = 400"
| "status_code NOT_FOUND = 404"
| "status_code NOT_IMPLEMENTED = 501"

text \<open>
  A response written by \<open>_send_json\<close> is its status and the value given to \<open>json.dumps\<close>
  (no body for \<open>None\<close>, line 144). \<open>ErrorPage\<close> is the HTML page of the base class's own
  \<open>send_error\<close>.
\<close>

datatype response = Json HTTPStatus "pyval option" | ErrorPage HTTPStatus

text \<open>
  A request that the base class's \<open>parse_request\<close> accepts (a request line of a method,
  a path and an HTTP/1.x version, and headers that parse): the method and the path as
  they stand in the request line, the \<open>Content-Length\<close> header if there is one, and what
  \<open>json.loads(self.rfile.read(n).decode('utf-8'))\<close> does with the body (the value, or the
  exception raised).
\<close>

record request =
  command :: string
  path :: string
  content_length :: "string option"
  body_json :: "py_error + pyval"

definition send_json :: "pyval \<Rightarrow> HTTPStatus \<Rightarrow> response" where
  "send_json data st = Json st (if data = PNone then None else Some data)"

definition send_error :: "HTTPStatus \<Rightarrow> string \<Rightarrow> response" where
  "send_error st message = send_json (PDict [(''error'', PStr message)]) st"

text \<open>Lines 158-173. \<open>Inr PNone\<close> is the method returning \<open>None\<close>.\<close>

definition parse_json_body :: "request \<Rightarrow> py_error + pyval" where
  "parse_json_body rq =
     (case (case content_length rq of None \<Rightarrow> Some 0 | Some h \<Rightarrow> py_int h) of
        None \<Rightarrow> Inr PNone
      | Some n \<Rightarrow>
          if n = 0 then Inr PNone
          else (case body_json rq of
                  Inl e \<Rightarrow> if is_ValueError e then Inr PNone else Inl e
                | Inr v \<Rightarrow> Inr v))"

text \<open>Lines 175-192.\<close>

definition extract_task_id_from_path :: "string \<Rightarrow> int option" where
  "extract_task_id_from_path p =
     (case split CHR ''/'' (strip_char CHR ''/'' p) of
        a # b # rest \<Rightarrow> if a = ''tasks'' then py_int b else None
      | _ \<Rightarrow> None)"

type_synonym handled = "py_error + response \<times> task_manager"

definition handle_get_tasks :: "task_manager \<Rightarrow> handled" where
  "handle_get_tasks tm = Inr (send_json (tasks_json (get_all_tasks tm)) OK, tm)"

text \<open>Lines 199-222. Only a dict has \<open>get\<close>; on any other value line 207 raises.\<close>

definition handle_post_tasks :: "request \<Rightarrow> task_manager \<Rightarrow> handled" where
  "handle_post_tasks rq tm =
     (case parse_json_body rq of
        Inl e \<Rightarrow> Inl e
      | Inr data \<Rightarrow>
          if data = PNone then Inr (send_error BAD_REQUEST ''Invalid JSON'', tm)
          else
            (case data of
               PDict d \<Rightarrow>
                 (let ttl = dict_get d ''title'' PNone;
                      prio = dict_get d ''priority'' (PStr ''normal'')
                  in if \<not> truthy ttl then Inr (send_error BAD_REQUEST ''title is required'', tm)
                     else if prio \<notin> set [PStr ''low'', PStr ''normal'', PStr ''high'']
                     then Inr (send_error BAD_REQUEST ''priority must be low, normal, or high'', tm)
                     else (case create_task ttl prio tm of
                             (t, tm') \<Rightarrow> Inr (send_json (task_json t) CREATED, tm')))
             | _ \<Rightarrow> Inl AttributeError))"

definition handle_post_tasks_complete :: "request \<Rightarrow> task_manager \<Rightarrow> handled" where
  "handle_post_tasks_complete rq tm =
     (case extract_task_id_from_path (path rq) of
        None \<Rightarrow> Inr (send_error BAD_REQUEST ''Invalid task ID'', tm)
      | Some i \<Rightarrow>
          (case mark_as_done tm i of
             (True, tm') \<Rightarrow> Inr (send_json (PDict []) OK, tm')
           | (False, tm') \<Rightarrow> Inr (send_error NOT_FOUND ''Task not found'', tm')))"

definition handle_delete_task :: "request \<Rightarrow> task_manager \<Rightarrow> handled" where
  "handle_delete_task rq tm =
     (case extract_task_id_from_path (path rq) of
        None \<Rightarrow> Inr (send_error BAD_REQUEST ''Invalid task ID'', tm)
      | Some i \<Rightarrow>
          (case delete_task tm i of
             (True, tm') \<Rightarrow> Inr (send_json (PDict []) OK, tm')
           | (False, tm') \<Rightarrow> Inr (send_error NOT_FOUND ''Task not found'', tm')))"

definition do_GET :: "request \<Rightarrow> task_manager \<Rightarrow> handled" where
  "do_GET rq tm =
     (if path rq = ''/tasks'' then handle_get_tasks tm
      else Inr (send_error NOT_FOUND ''Route not found'', tm))"

definition do_POST :: "request \<Rightarrow> task_manager \<Rightarrow> handled" where
  "do_POST rq tm =
     (if path rq = ''/tasks'' then handle_post_tasks rq tm
      else if startswith (path rq) ''/tasks/'' \<and> endswith (path rq) ''/complete''
      then handle_post_tasks_complete rq tm
      else Inr (send_error NOT_FOUND ''Route not found'', tm))"

definition do_DELETE :: "request \<Rightarrow> task_manager \<Rightarrow> handled" where
  "do_DELETE rq tm =
     (if startswith (path rq) ''/tasks/'' then handle_delete_task rq tm
      else Inr (send_error NOT_FOUND ''Route not found'', tm))"

text \<open>
  \<open>self.path\<close> as the \<open>do_\<close> methods see it. \<open>parse_request\<close> of the standard library
  sets it to the path of the request line and then reduces a leading run of slashes to
  one: \<open>if self.path.startswith('//'): self.path = '/' + self.path.lstrip('/')\<close>.
\<close>

definition self_path :: "request \<Rightarrow> string" where
  "self_path rq =
     (if startswith (path rq) ''//''
      then CHR ''/'' # dropWhile (\<lambda>c. c = CHR ''/'') (path rq)
      else path rq)"

text \<open>
  The dispatch is the base class's, \<open>BaseHTTPRequestHandler.handle_one_request\<close> of the
  standard library: after \<open>parse_request\<close> it calls the method named \<open>do_\<close> followed by
  the request's method when the handler class has one, and otherwise answers
  \<open>send_error(501)\<close>. \<open>TodoHandler\<close> has \<open>do_GET\<close>, \<open>do_POST\<close> and \<open>do_DELETE\<close>.
\<close>

definition handle_one_request :: "request \<Rightarrow> task_manager \<Rightarrow> handled" where
  "handle_one_request rq tm =
     (let self = rq\<lparr>path := self_path rq\<rparr>
      in if command self = ''GET'' then do_GET self tm
         else if command self = ''POST'' then do_POST self tm
         else if command self = ''DELETE'' then do_DELETE self tm
         else Inr (ErrorPage NOT_IMPLEMENTED, tm))"

section \<open>Sequences of store operations\<close>

datatype op = Create pyval pyval | MarkDone int | Delete int

fun step :: "op \<Rightarrow> task_manager \<Rightarrow> task_manager" where
  "step (Create ttl prio) tm = snd (create_task ttl prio tm)"
| "step (MarkDone i) tm = snd (mark_as_done tm i)"
| "step (Delete i) tm = snd (delete_task tm i)"

fun run :: "op list \<Rightarrow> task_manager \<Rightarrow> task_manager" where
  "run [] tm = tm"
| "run (x # xs) tm = run xs (step x tm)"

text \<open>The ids that the creates of a sequence hand out, in order.\<close>

fun assigned :: "op list \<Rightarrow> task_manager \<Rightarrow> int list" where
  "assigned [] tm = []"
| "assigned (Create ttl prio # xs) tm =
     task_id (fst (create_task ttl prio tm)) # assigned xs (step (Create ttl prio) tm)"
| "assigned (x # xs) tm = assigned xs (step x tm)"

text \<open>
  A sequence in which no delete asks for the id that is the largest of the store at that
  moment (\<open>get_next_id\<close> minus one).
\<close>

fun keeps_maximum :: "op list \<Rightarrow> task_manager \<Rightarrow> bool" where
  "keeps_maximum [] tm = True"
| "keeps_maximum (Delete i # xs) tm =
     (i + 1 \<noteq> get_next_id tm \<and> keeps_maximum xs (step (Delete i) tm))"
| "keeps_maximum (x # xs) tm = keeps_maximum xs (step x tm)"

section \<open>The routing table as the specification words it\<close>



section \<open>Facts about the store\<close>

lemma foldl_max_Max: "foldl max (a::int) xs = Max (set (a # xs))"
proof (induction xs arbitrary: a)
  case Nil
  show ?case by simp
next
  case (Cons x xs)
  have "foldl max a (x # xs) = Max (set (max a x # xs))"
    using Cons.IH [of "max a x"] by simp
  also have "\<dots> = Max (insert (max a x) (set xs))" by simp
  also have "\<dots> = Max (insert a (insert x (set xs)))"
    by (cases "xs = []") (simp_all add: max.assoc)
  finally show ?case by simp
qed

lemma get_next_id_Max:
  "get_next_id tm = (if tasks tm = [] then 1 else Max (task_id ` set (tasks tm)) + 1)"
  by (cases "tasks tm") (simp_all add: get_next_id_def foldl_max_Max)

lemma get_next_id_gt:
  assumes "t \<in> set (tasks tm)"
  shows "task_id t < get_next_id tm"
proof -
  from assms have ne: "tasks tm \<noteq> []" by auto
  have "task_id t \<le> Max (task_id ` set (tasks tm))"
    using assms by (intro Max_ge) auto
  with ne show ?thesis by (simp add: get_next_id_Max)
qed

lemma get_next_id_same_ids:
  assumes h: "map task_id (tasks tm) = map task_id (tasks tm')"
  shows "get_next_id tm = get_next_id tm'"
proof -
  from h have "set (map task_id (tasks tm)) = set (map task_id (tasks tm'))" by simp
  then have s: "task_id ` set (tasks tm) = task_id ` set (tasks tm')" by simp
  from h have "(tasks tm = []) = (tasks tm' = [])" by (metis map_is_Nil_conv)
  with s show ?thesis by (simp add: get_next_id_Max)
qed

lemma set_done_ids: "map task_id (set_done i ts) = map task_id ts"
  by (induction ts) auto


lemma first_with_id_Some: "first_with_id i ts = Some t \<Longrightarrow> t \<in> set ts \<and> task_id t = i"
  by (induction ts) (auto split: if_splits)

lemma distinct_remove1_ids:
  "distinct (map task_id ts) \<Longrightarrow> distinct (map task_id (remove1 t ts))"
proof (induction ts)
  case Nil
  show ?case by simp
next
  case (Cons a ts)
  have "task_id ` set (remove1 t ts) \<subseteq> task_id ` set ts"
    using set_remove1_subset [of t ts] by blast
  with Cons show ?case by auto
qed

lemma step_distinct:
  assumes "distinct (map task_id (tasks tm))"
  shows "distinct (map task_id (tasks (step x tm)))"
proof (cases x)
  case (Create ttl prio)
  have "get_next_id tm \<notin> task_id ` set (tasks tm)"
    using get_next_id_gt [of _ tm] by force
  with assms Create show ?thesis
    by (simp add: create_task_def save_tasks_def Let_def)
next
  case (MarkDone i)
  with assms show ?thesis
    by (simp add: mark_as_done_def save_tasks_def set_done_ids split: option.splits)
next
  case (Delete i)
  with assms show ?thesis
    by (simp add: delete_task_def save_tasks_def distinct_remove1_ids split: option.splits)
qed

section \<open>Next-id computation\<close>

text \<open>
  C3. For every store state, \<open>get_next_id\<close> returns 1 when the task collection is empty,
  and otherwise the largest id among the stored tasks plus 1.
\<close>

theorem next_id_computation:
  "get_next_id tm = (if tasks tm = [] then 1 else Max (task_id ` set (tasks tm)) + 1)"
  by (rule get_next_id_Max)

section \<open>Uniqueness of ids\<close>

text \<open>
  C4. From a store whose ids are pairwise distinct, every sequence of create, mark-done and
  delete operations leads to a store whose ids are pairwise distinct; a sequence of one
  operation is the statement that each operation preserves the invariant.
\<close>

theorem ids_stay_distinct:
  "distinct (map task_id (tasks tm)) \<Longrightarrow> distinct (map task_id (tasks (run ops tm)))"
  by (induction ops arbitrary: tm) (simp_all add: step_distinct)

theorem ids_stay_distinct_witness:
  "distinct (map task_id (tasks \<lparr>tasks = [\<lparr>task_id = 4, title = PStr ''a'', priority = PStr ''low'', isDone = False\<rparr>], saved = []\<rparr>))
   \<and> distinct (map task_id (tasks (run [Create (PStr ''b'') (PStr ''high''), MarkDone 4, Delete 4, Create (PStr ''c'') (PStr ''normal'')]
        \<lparr>tasks = [\<lparr>task_id = 4, title = PStr ''a'', priority = PStr ''low'', isDone = False\<rparr>], saved = []\<rparr>)))"
proof -
  have h: "distinct (map task_id (tasks \<lparr>tasks = [\<lparr>task_id = 4, title = PStr ''a'', priority = PStr ''low'', isDone = False\<rparr>], saved = []\<rparr>))"
    by simp
  from h ids_stay_distinct [OF h] show ?thesis by blast
qed

lemma tasks_create:
  "tasks (snd (create_task ttl prio tm)) =
     tasks tm @ [\<lparr>task_id = get_next_id tm, title = ttl, priority = prio, isDone = False\<rparr>]"
  by (simp add: create_task_def save_tasks_def Let_def)

lemma tasks_delete_found:
  "get_task_by_id tm i = Some t \<Longrightarrow> tasks (snd (delete_task tm i)) = remove1 t (tasks tm)"
  by (simp add: delete_task_def save_tasks_def)

lemma next_id_after_create:
  "get_next_id (step (Create ttl prio) tm) = get_next_id tm + 1"
proof -
  let ?n = "get_next_id tm"
  have le: "\<And>t. t \<in> set (tasks tm) \<Longrightarrow> task_id t \<le> ?n"
    using get_next_id_gt [of _ tm] by (simp add: less_imp_le)
  have "Max (insert ?n (task_id ` set (tasks tm))) = ?n"
    by (rule Max_eqI) (auto dest: le)
  then show ?thesis
    using get_next_id_Max [of "snd (create_task ttl prio tm)"]
    by (simp add: tasks_create)
qed

lemma next_id_after_mark:
  "get_next_id (step (MarkDone i) tm) = get_next_id tm"
  by (rule get_next_id_same_ids)
     (simp add: mark_as_done_def save_tasks_def set_done_ids split: option.splits)

lemma next_id_after_delete:
  assumes "i + 1 \<noteq> get_next_id tm"
  shows "get_next_id (step (Delete i) tm) = get_next_id tm"
proof (cases "get_task_by_id tm i")
  case None
  then show ?thesis by (simp add: delete_task_def)
next
  case (Some t)
  then have t: "t \<in> set (tasks tm)" "task_id t = i"
    using first_with_id_Some [of i "tasks tm" t] by (simp_all add: get_task_by_id_def)
  let ?ids = "task_id ` set (tasks tm)"
  from t have ne: "tasks tm \<noteq> []" by auto
  then have "Max ?ids \<in> ?ids" by (intro Max_in) auto
  then obtain m where m: "m \<in> set (tasks tm)" "task_id m = Max ?ids" by auto
  from assms ne have "i \<noteq> Max ?ids" by (simp add: get_next_id_Max)
  with m t have "m \<noteq> t" by auto
  with m have m': "m \<in> set (remove1 t (tasks tm))" by simp
  have sub: "task_id ` set (remove1 t (tasks tm)) \<subseteq> ?ids"
    using set_remove1_subset [of t "tasks tm"] by blast
  have "Max (task_id ` set (remove1 t (tasks tm))) = Max ?ids"
  proof (rule Max_eqI)
    show "finite (task_id ` set (remove1 t (tasks tm)))" by simp
    show "Max ?ids \<in> task_id ` set (remove1 t (tasks tm))"
      using m' m(2) by force
    fix y assume "y \<in> task_id ` set (remove1 t (tasks tm))"
    with sub have "y \<in> ?ids" by blast
    then show "y \<le> Max ?ids" by (intro Max_ge) auto
  qed
  moreover from m' have "remove1 t (tasks tm) \<noteq> []" by auto
  ultimately show ?thesis
    using ne get_next_id_Max [of "snd (delete_task tm i)"] get_next_id_Max [of tm]
    by (simp add: tasks_delete_found [OF Some])
qed

lemma assigned_increasing:
  "keeps_maximum ops tm \<Longrightarrow>
     sorted_wrt (<) (assigned ops tm) \<and> (\<forall>i\<in>set (assigned ops tm). get_next_id tm \<le> i)"
proof (induction ops arbitrary: tm)
  case Nil
  show ?case by simp
next
  case (Cons x xs)
  show ?case
  proof (cases x)
    case (Create ttl prio)
    with Cons.prems have "keeps_maximum xs (step (Create ttl prio) tm)" by simp
    from Cons.IH [OF this]
    have "sorted_wrt (<) (assigned xs (step (Create ttl prio) tm))"
      and "\<forall>i\<in>set (assigned xs (step (Create ttl prio) tm)). get_next_id tm + 1 \<le> i"
      unfolding next_id_after_create by blast+
    moreover have "task_id (fst (create_task ttl prio tm)) = get_next_id tm"
      by (simp add: create_task_def Let_def)
    ultimately show ?thesis using Create by force
  next
    case (MarkDone i)
    with Cons.prems have "keeps_maximum xs (step (MarkDone i) tm)" by simp
    from Cons.IH [OF this, unfolded next_id_after_mark] show ?thesis
      using MarkDone by simp
  next
    case (Delete i)
    with Cons.prems have k: "keeps_maximum xs (step (Delete i) tm)"
      and n: "i + 1 \<noteq> get_next_id tm" by simp_all
    from Cons.IH [OF k, unfolded next_id_after_delete [OF n]] show ?thesis
      using Delete by simp
  qed
qed

section \<open>Assignment of ids\<close>

text \<open>
  C1, as the code has it. In every store state the id given to a new task is strictly
  greater than the id of every task now in the store. Along every sequence of create,
  mark-done and delete operations in which no delete asks for the id that is the largest
  of the store at that moment, the ids handed out are strictly increasing and greater
  than every id of the starting store.
\<close>

theorem new_id_above_stored:
  "(\<forall>t\<in>set (tasks tm). task_id t < task_id (fst (create_task ttl prio tm)))
   \<and> (keeps_maximum ops tm \<longrightarrow>
        sorted_wrt (<) (assigned ops tm)
        \<and> (\<forall>i\<in>set (assigned ops tm). \<forall>t\<in>set (tasks tm). task_id t < i))"
proof (intro conjI impI ballI)
  fix t assume "t \<in> set (tasks tm)"
  then show "task_id t < task_id (fst (create_task ttl prio tm))"
    using get_next_id_gt [of t tm] by (simp add: create_task_def Let_def)
next
  assume "keeps_maximum ops tm"
  then show "sorted_wrt (<) (assigned ops tm)"
    using assigned_increasing by blast
next
  fix i t assume "keeps_maximum ops tm" "i \<in> set (assigned ops tm)" "t \<in> set (tasks tm)"
  then show "task_id t < i"
    using assigned_increasing [of ops tm] get_next_id_gt [of t tm] by force
qed

theorem new_id_above_stored_witness:
  "keeps_maximum [Create (PStr ''b'') (PStr ''high''), Delete 4, MarkDone 5, Create (PStr ''c'') (PStr ''low'')]
      \<lparr>tasks = [\<lparr>task_id = 4, title = PStr ''a'', priority = PStr ''low'', isDone = False\<rparr>], saved = []\<rparr>
   \<and> sorted_wrt (<) (assigned [Create (PStr ''b'') (PStr ''high''), Delete 4, MarkDone 5, Create (PStr ''c'') (PStr ''low'')]
      \<lparr>tasks = [\<lparr>task_id = 4, title = PStr ''a'', priority = PStr ''low'', isDone = False\<rparr>], saved = []\<rparr>)
   \<and> (4::int) < task_id (fst (create_task (PStr ''b'') (PStr ''high'')
      \<lparr>tasks = [\<lparr>task_id = 4, title = PStr ''a'', priority = PStr ''low'', isDone = False\<rparr>], saved = []\<rparr>))"
proof -
  let ?tm = "\<lparr>tasks = [\<lparr>task_id = 4, title = PStr ''a'', priority = PStr ''low'', isDone = False\<rparr>], saved = []\<rparr>"
  let ?ops = "[Create (PStr ''b'') (PStr ''high''), Delete 4, MarkDone 5, Create (PStr ''c'') (PStr ''low'')]"
  have k: "keeps_maximum ?ops ?tm"
    by (simp add: get_next_id_def create_task_def delete_task_def mark_as_done_def
                  get_task_by_id_def save_tasks_def Let_def)
  have m: "\<lparr>task_id = 4, title = PStr ''a'', priority = PStr ''low'', isDone = False\<rparr> \<in> set (tasks ?tm)"
    by simp
  from new_id_above_stored [of ?tm "PStr ''b''" "PStr ''high''" ?ops] k m
  show ?thesis by force
qed

text \<open>
  C1 as stated fails: the store keeps no record of ids handed out, so once the task with
  the largest id is deleted its id is handed out again. From the empty store, two creates,
  the deletion of task 2 and a third create hand out the ids 1, 2, 2; the list of tasks
  holds id 1 alone after the deletion and the ids 1, 2 after the third create.
\<close>

theorem id_reuse_counterexample:
  "assigned [Create (PStr ''a'') (PStr ''low''), Create (PStr ''b'') (PStr ''low''), Delete 2,
             Create (PStr ''c'') (PStr ''low'')] \<lparr>tasks = [], saved = []\<rparr> = [1, 2, 2]
   \<and> map task_id (get_all_tasks (run [Create (PStr ''a'') (PStr ''low''), Create (PStr ''b'') (PStr ''low''),
             Delete 2] \<lparr>tasks = [], saved = []\<rparr>)) = [1]
   \<and> map task_id (get_all_tasks (run [Create (PStr ''a'') (PStr ''low''), Create (PStr ''b'') (PStr ''low''),
             Delete 2, Create (PStr ''c'') (PStr ''low'')] \<lparr>tasks = [], saved = []\<rparr>)) = [1, 2]"
  by (simp add: get_next_id_def create_task_def delete_task_def get_all_tasks_def
                get_task_by_id_def save_tasks_def Let_def)

section \<open>Facts about completion, deletion and their endpoints\<close>
















section \<open>Completion\<close>




section \<open>Unknown ids\<close>



section \<open>Create, then list\<close>


section \<open>Routing\<close>













section \<open>Loading the backing file\<close>

lemma task_of_json_task_json: "task_of_json (task_json t) = Some t"
  by (simp add: task_json_def)

lemma tasks_of_json_tasks_json: "tasks_of_json (tasks_json ts) = Some ts"
  by (induction ts) (simp_all add: tasks_json_def task_of_json_task_json)

text \<open>
  Line 31 catches \<open>JSONDecodeError\<close> and \<open>IOError\<close> and nothing else: any other exception
  of the read leaves \<open>load_tasks\<close>, as \<open>UnicodeDecodeError\<close> does for a file whose bytes
  are not UTF-8.
\<close>

lemma load_tasks_uncaught:
  "file_exists f \<Longrightarrow> file_read f = Inl e \<Longrightarrow> e \<noteq> IOError \<Longrightarrow> e \<noteq> JSONDecodeError \<Longrightarrow>
     init f = Inl e"
  by (simp add: init_def load_tasks_def)

text \<open>
  C6, as the code has it. Initialisation yields the empty collection when the file is
  absent, when opening or reading it raises \<open>IOError\<close>, when its text is empty or white
  space only, and when \<open>json.loads\<close> raises \<open>JSONDecodeError\<close>. When the text parses,
  \<open>self.tasks\<close> is exactly the value parsed, whatever its shape; for a persisted task
  array that is the array, which reads back as the tasks written.
\<close>

theorem load_fallback:
  "(\<not> file_exists f \<longrightarrow> init f = Inr (PList []))
   \<and> (file_exists f \<and> file_read f = Inl IOError \<longrightarrow> init f = Inr (PList []))
   \<and> (file_exists f \<and> file_read f = Inr text \<and> strip text = [] \<longrightarrow> init f = Inr (PList []))
   \<and> (file_exists f \<and> file_read f = Inr text \<and> strip text \<noteq> []
        \<and> file_loads f = Inl JSONDecodeError \<longrightarrow> init f = Inr (PList []))
   \<and> (file_exists f \<and> file_read f = Inr text \<and> strip text \<noteq> []
        \<and> file_loads f = Inr v \<longrightarrow> init f = Inr v)
   \<and> (file_exists f \<and> file_read f = Inr text \<and> strip text \<noteq> []
        \<and> file_loads f = Inr (tasks_json ts) \<longrightarrow>
          init f = Inr (tasks_json ts) \<and> tasks_of_json (tasks_json ts) = Some ts)"
  by (simp add: init_def load_tasks_def Let_def tasks_of_json_tasks_json)

text \<open>
  C6 as stated fails: \<open>load_tasks\<close> never looks at the shape of what it parsed. A file
  holding \<open>{}\<close> is not a task collection, and initialisation yields the empty dict, not
  the empty collection.
\<close>

theorem load_fallback_counterexample:
  "init \<lparr>file_exists = True, file_read = Inr ''{}'', file_loads = Inr (PDict [])\<rparr> = Inr (PDict [])
   \<and> tasks_of_json (PDict []) = None"
  by (simp add: init_def load_tasks_def Let_def strip_def strip_with_def is_space_def)

theorem load_fallback_witness:
  \<open>init \<lparr>file_exists = False, file_read = Inl IOError, file_loads = Inl JSONDecodeError\<rparr> = Inr (PList [])
   \<and> init \<lparr>file_exists = True, file_read = Inl IOError, file_loads = Inl JSONDecodeError\<rparr> = Inr (PList [])
   \<and> strip [CHR '' '', CHR 0x0A] = []
   \<and> init \<lparr>file_exists = True, file_read = Inr [CHR '' '', CHR 0x0A], file_loads = Inl JSONDecodeError\<rparr> = Inr (PList [])
   \<and> strip ''[1,'' \<noteq> []
   \<and> init \<lparr>file_exists = True, file_read = Inr ''[1,'', file_loads = Inl JSONDecodeError\<rparr> = Inr (PList [])
   \<and> strip ''[[]]'' \<noteq> []
   \<and> init \<lparr>file_exists = True, file_read = Inr ''[[]]'', file_loads = Inr (PList [PList []])\<rparr> = Inr (PList [PList []])
   \<and> init \<lparr>file_exists = True, file_read = Inr ''[{"id": 1, "title": "a", "priority": "low", "isDone": true}]'',
        file_loads = Inr (tasks_json [\<lparr>task_id = 1, title = PStr ''a'', priority = PStr ''low'', isDone = True\<rparr>])\<rparr>
       = Inr (tasks_json [\<lparr>task_id = 1, title = PStr ''a'', priority = PStr ''low'', isDone = True\<rparr>])
   \<and> tasks_of_json (tasks_json [\<lparr>task_id = 1, title = PStr ''a'', priority = PStr ''low'', isDone = True\<rparr>])
       = Some [\<lparr>task_id = 1, title = PStr ''a'', priority = PStr ''low'', isDone = True\<rparr>]\<close>
proof -
  let ?ts = "[\<lparr>task_id = 1, title = PStr ''a'', priority = PStr ''low'', isDone = True\<rparr>]"
  let ?f1 = "\<lparr>file_exists = False, file_read = Inl IOError, file_loads = Inl JSONDecodeError\<rparr>"
  let ?f2 = "\<lparr>file_exists = True, file_read = Inl IOError, file_loads = Inl JSONDecodeError\<rparr>"
  let ?f3 = "\<lparr>file_exists = True, file_read = Inr [CHR '' '', CHR 0x0A], file_loads = Inl JSONDecodeError\<rparr>"
  let ?f4 = "\<lparr>file_exists = True, file_read = Inr ''[1,'', file_loads = Inl JSONDecodeError\<rparr>"
  let ?f5 = "\<lparr>file_exists = True, file_read = Inr ''[[]]'', file_loads = Inr (PList [PList []])\<rparr>"
  let ?f6 = \<open>\<lparr>file_exists = True, file_read = Inr ''[{"id": 1, "title": "a", "priority": "low", "isDone": true}]'', file_loads = Inr (tasks_json ?ts)\<rparr>\<close>
  have s: "strip [CHR '' '', CHR 0x0A] = []" "strip ''[1,'' \<noteq> []" "strip ''[[]]'' \<noteq> []"
    \<open>strip ''[{"id": 1, "title": "a", "priority": "low", "isDone": true}]'' \<noteq> []\<close>
    by (simp_all add: strip_def strip_with_def is_space_def)
  from load_fallback [of ?f1] load_fallback [of ?f2]
    load_fallback [of ?f3 "[CHR '' '', CHR 0x0A]"]
    load_fallback [of ?f4 "''[1,''"]
    load_fallback [of ?f5 "''[[]]''" "PList [PList []]"]
    load_fallback [of ?f6 \<open>''[{"id": 1, "title": "a", "priority": "low", "isDone": true}]''\<close> _ ?ts]
    s
  show ?thesis by simp
qed

section \<open>Creating a task over HTTP\<close>


lemma handle_post_tasks_object:
  assumes "parse_json_body rq = Inr (PDict d)"
  shows "handle_post_tasks rq tm =
     (if \<not> truthy (dict_get d ''title'' PNone)
      then Inr (Json BAD_REQUEST (Some (PDict [(''error'', PStr ''title is required'')])), tm)
      else if dict_get d ''priority'' (PStr ''normal'') \<notin> {PStr ''low'', PStr ''normal'', PStr ''high''}
      then Inr (Json BAD_REQUEST
                  (Some (PDict [(''error'', PStr ''priority must be low, normal, or high'')])), tm)
      else Inr (Json CREATED
                  (Some (task_json (fst (create_task (dict_get d ''title'' PNone)
                                           (dict_get d ''priority'' (PStr ''normal'')) tm)))),
                snd (create_task (dict_get d ''title'' PNone)
                       (dict_get d ''priority'' (PStr ''normal'')) tm)))"
  using assms
  by (simp add: handle_post_tasks_def send_error_def send_json_def Let_def task_json_def
           split: prod.splits)

lemma handle_post_tasks_unparsed:
  assumes "parse_json_body rq = Inr PNone"
  shows "handle_post_tasks rq tm =
     Inr (Json BAD_REQUEST (Some (PDict [(''error'', PStr ''Invalid JSON'')])), tm)"
  using assms by (simp add: handle_post_tasks_def send_error_def send_json_def)

text \<open>
  C2. The validation sequence holds for bodies that parse to a JSON object (the two lemmas
  above), but not for every body: \<open>POST /tasks\<close> with the body \<open>[]\<close> parses, is not
  \<open>None\<close>, and line 207 calls \<open>get\<close> on a list. The handler raises \<open>AttributeError\<close>
  and writes no response, where the claim promises 400 with \<open>title is required\<close>.
\<close>

theorem create_non_object_body:
  "handle_one_request
     \<lparr>command = ''POST'', path = ''/tasks'', content_length = Some ''2'', body_json = Inr (PList [])\<rparr>
     \<lparr>tasks = [], saved = []\<rparr>
   = Inl AttributeError"
  by (simp add: handle_one_request_def Let_def self_path_def startswith_def do_POST_def
        handle_post_tasks_def parse_json_body_def py_int_def is_int_space_def strip_with_def
        number_def is_digit_def digit_val_def)




end
